theory Spec2Isabelle
  imports Main
begin

section \<open>The construct tree\<close>

text \<open>
  The topology source declares three stacks. Each \<^verbatim>\<open>new X(scope, id, props)\<close> of the
  source records one declaration in the construct tree of the enclosing stack and returns a
  handle on it; the model keeps, per stack, the list of declared nodes in declaration order,
  each with its path in the tree and the properties the source passes. A handle is the path
  together with those properties. The constructor of the route front door declares more
  than its own node: the output with the front door's URL and, where preflight options are
  set, a preflight method on every resource; those are recorded too, since routes and
  outputs are counted below. The roles, permissions, deployment and stage that the toolkit's
  constructors create beside them hold no route, output, policy or publication and are
  left out, as is everything the toolkit derives only when it synthesises a template.
  The source's parameter \<^verbatim>\<open>id\<close> is written \<open>cid\<close>, and \<^verbatim>\<open>scope\<close> is
  written \<open>scp\<close>, the path of the enclosing construct.
\<close>

type_synonym construct_path = "string list"

text \<open>
  A value known at deployment only: an attribute of a declared construct (\<^verbatim>\<open>attrArn\<close>,
  \<^verbatim>\<open>distributionDomainName\<close>), or the URL of a front door's deployed stage.
\<close>

datatype token = GetAtt construct_path string | Url construct_path

subsection \<open>Firewall policy declarations\<close>

datatype RuleAction = Allow | Block

record VisibilityConfig =
  sampledRequestsEnabled :: bool
  cloudWatchMetricsEnabled :: bool
  metricName :: string

datatype Statement = RateBasedStatement (limit: int) (aggregateKeyType: string)

record Rule =
  name :: string
  priority :: int
  statement :: Statement
  action :: RuleAction
  ruleVisibilityConfig :: VisibilityConfig

record CfnWebACLProps =
  scope :: string
  defaultAction :: RuleAction
  visibilityConfig :: VisibilityConfig
  rules :: "Rule list"

record CfnWebACL =
  webAcl_path :: construct_path
  webAcl_props :: CfnWebACLProps

definition attrArn :: "CfnWebACL \<Rightarrow> token" where
  "attrArn acl = GetAtt (webAcl_path acl) ''Arn''"

subsection \<open>Compute endpoints and the route front door\<close>

datatype Runtime = NODEJS_18_X

datatype Code = Code_fromAsset string

record FunctionProps =
  runtime :: Runtime
  handler :: string
  code :: Code

record Function =
  function_path :: construct_path
  function_props :: FunctionProps

datatype CorsOrigins = ALL_ORIGINS
datatype CorsMethods = ALL_METHODS

record CorsOptions =
  allowOrigins :: CorsOrigins
  allowMethods :: CorsMethods

text \<open>
  The source sets the first three properties of the front door and leaves \<^verbatim>\<open>deploy\<close> out
  (\<open>None\<close>); the toolkit then deploys.
\<close>

record RestApiProps =
  restApiName :: string
  description :: string
  defaultCorsPreflightOptions :: "CorsOptions option"
  deploy :: "bool option"

record RestApi =
  restApi_path :: construct_path
  restApi_props :: RestApiProps

text \<open>
  A method is integrated with a compute endpoint or, for a preflight request, with the
  front door's own mock answer for the given options.
\<close>

datatype Integration = LambdaIntegration Function | MockIntegration CorsOptions

text \<open>
  A resource of the front door: its node in the tree, the request path it stands for and
  the preflight options it has from the front door. A method declaration names the
  resource it is added to.
\<close>

record Resource =
  resource_node :: construct_path
  resource_path :: string
  resource_cors :: "CorsOptions option"

record Method =
  httpMethod :: string
  method_resource :: Resource
  integration :: Integration

subsection \<open>Object store, distribution, publication, output\<close>

datatype BlockPublicAccess = BLOCK_ALL | BLOCK_ACLS
datatype RemovalPolicy = DESTROY | RETAIN | SNAPSHOT

record BucketProps =
  websiteIndexDocument :: "string option"
  websiteErrorDocument :: "string option"
  publicReadAccess :: bool
  blockPublicAccess :: BlockPublicAccess
  removalPolicy :: RemovalPolicy

record Bucket =
  bucket_path :: construct_path
  bucket_props :: BucketProps

datatype Origin =
    S3BucketOrigin_withOriginAccessControl Bucket
  | RestApiOrigin RestApi

datatype ViewerProtocolPolicy = REDIRECT_TO_HTTPS | HTTPS_ONLY | ALLOW_ALL
datatype CachePolicy = CACHING_DISABLED | CACHING_OPTIMIZED

text \<open>A behaviour of the source leaves \<^verbatim>\<open>cachePolicy\<close> out (\<open>None\<close>) or sets it.\<close>

record BehaviorOptions =
  origin :: Origin
  viewerProtocolPolicy :: ViewerProtocolPolicy
  cachePolicy :: "CachePolicy option"

record DistributionProps =
  defaultBehavior :: BehaviorOptions
  additionalBehaviors :: "(string \<times> BehaviorOptions) list"
  defaultRootObject :: string
  webAclId :: token

record Distribution =
  distribution_path :: construct_path
  distribution_props :: DistributionProps

definition distributionDomainName :: "Distribution \<Rightarrow> token" where
  "distributionDomainName d = GetAtt (distribution_path d) ''DomainName''"

datatype Source = Source_asset string

record BucketDeploymentProps =
  sources :: "Source list"
  destinationBucket :: Bucket
  deploymentDistribution :: Distribution
  distributionPaths :: "string list"

record CfnOutputProps =
  output_value :: token

subsection \<open>Stacks\<close>

datatype construct =
    WebACL_node CfnWebACLProps
  | Function_node FunctionProps
  | RestApi_node RestApiProps
  | RootResource_node
  | Resource_node string
  | Method_node Method
  | Bucket_node BucketProps
  | Distribution_node DistributionProps
  | BucketDeployment_node BucketDeploymentProps
  | CfnOutput_node CfnOutputProps

record 'p Stack =
  stack_path :: construct_path
  stack_props :: 'p
  nodes :: "(construct_path \<times> construct) list"

text \<open>\<^verbatim>\<open>super(scope, id, props)\<close>: a stack with nothing declared in it yet.\<close>

definition new_Stack :: "construct_path \<Rightarrow> string \<Rightarrow> 'p \<Rightarrow> 'p Stack" where
  "new_Stack scp cid props = \<lparr>stack_path = scp @ [cid], stack_props = props, nodes = []\<rparr>"

definition declare_node :: "construct_path \<Rightarrow> construct \<Rightarrow> 'p Stack \<Rightarrow> 'p Stack" where
  "declare_node p c this = this\<lparr>nodes := nodes this @ [(p, c)]\<rparr>"

definition new_CfnWebACL :: "'p Stack \<Rightarrow> string \<Rightarrow> CfnWebACLProps \<Rightarrow> CfnWebACL \<times> 'p Stack" where
  "new_CfnWebACL this cid props =
     (let p = stack_path this @ [cid]
      in (\<lparr>webAcl_path = p, webAcl_props = props\<rparr>, declare_node p (WebACL_node props) this))"

definition new_Function :: "'p Stack \<Rightarrow> string \<Rightarrow> FunctionProps \<Rightarrow> Function \<times> 'p Stack" where
  "new_Function this cid props =
     (let p = stack_path this @ [cid]
      in (\<lparr>function_path = p, function_props = props\<rparr>, declare_node p (Function_node props) this))"

definition addMethod :: "Resource \<Rightarrow> string \<Rightarrow> Integration \<Rightarrow> 'p Stack \<Rightarrow> 'p Stack" where
  "addMethod res m integ this =
     declare_node (resource_node res @ [m])
       (Method_node \<lparr>httpMethod = m, method_resource = res, integration = integ\<rparr>) this"

text \<open>
  What the toolkit's resource constructors do last: with preflight options on the
  resource, they add the method \<^verbatim>\<open>OPTIONS\<close> with a mock integration to it.
\<close>

definition addCorsPreflight :: "Resource \<Rightarrow> CorsOptions \<Rightarrow> 'p Stack \<Rightarrow> 'p Stack" where
  "addCorsPreflight res cors this = addMethod res ''OPTIONS'' (MockIntegration cors) this"

definition default_preflight :: "Resource \<Rightarrow> 'p Stack \<Rightarrow> 'p Stack" where
  "default_preflight res this =
     (case resource_cors res of
        None \<Rightarrow> this
      | Some cors \<Rightarrow> addCorsPreflight res cors this)"

text \<open>
  \<^verbatim>\<open>api.root\<close>: the resource for the path \<^verbatim>\<open>/\<close>, the child \<^verbatim>\<open>Default\<close> of the front
  door.
\<close>

definition root :: "RestApi \<Rightarrow> Resource" where
  "root api =
     \<lparr>resource_node = restApi_path api @ [''Default''],
      resource_path = ''/'',
      resource_cors = defaultCorsPreflightOptions (restApi_props api)\<rparr>"

text \<open>
  \<^verbatim>\<open>new RestApi(this, id, props)\<close>: the front door itself; unless \<^verbatim>\<open>deploy\<close> is set to
  false, the output \<^verbatim>\<open>Endpoint\<close> with the URL of its deployed stage; and its root
  resource, with the preflight method when the options ask for it.
\<close>

definition new_RestApi :: "'p Stack \<Rightarrow> string \<Rightarrow> RestApiProps \<Rightarrow> RestApi \<times> 'p Stack" where
  "new_RestApi this cid props =
     (let p = stack_path this @ [cid];
          api = \<lparr>restApi_path = p, restApi_props = props\<rparr>;
          this = declare_node p (RestApi_node props) this;
          this = (if deploy props = Some False then this
                  else declare_node (p @ [''Endpoint''])
                         (CfnOutput_node \<lparr>output_value = Url p\<rparr>) this);
          this = declare_node (resource_node (root api)) RootResource_node this;
          this = default_preflight (root api) this
      in (api, this))"

text \<open>
  \<^verbatim>\<open>parent.addResource(pathPart)\<close>: a child resource. Its request path is the parent's,
  then a slash unless the parent's path ends with one, then the part; it has the
  parent's preflight options, and so its preflight method when there are any.
\<close>

definition addResource :: "Resource \<Rightarrow> string \<Rightarrow> 'p Stack \<Rightarrow> Resource \<times> 'p Stack" where
  "addResource parent pathPart this =
     (let res =
            \<lparr>resource_node = resource_node parent @ [pathPart],
             resource_path =
               (if resource_path parent \<noteq> [] \<and> last (resource_path parent) = CHR ''/''
                then resource_path parent @ pathPart
                else resource_path parent @ ''/'' @ pathPart),
             resource_cors = resource_cors parent\<rparr>;
          this = declare_node (resource_node res) (Resource_node pathPart) this;
          this = default_preflight res this
      in (res, this))"

definition new_Bucket :: "'p Stack \<Rightarrow> string \<Rightarrow> BucketProps \<Rightarrow> Bucket \<times> 'p Stack" where
  "new_Bucket this cid props =
     (let p = stack_path this @ [cid]
      in (\<lparr>bucket_path = p, bucket_props = props\<rparr>, declare_node p (Bucket_node props) this))"

definition new_Distribution ::
  "'p Stack \<Rightarrow> string \<Rightarrow> DistributionProps \<Rightarrow> Distribution \<times> 'p Stack" where
  "new_Distribution this cid props =
     (let p = stack_path this @ [cid]
      in (\<lparr>distribution_path = p, distribution_props = props\<rparr>,
          declare_node p (Distribution_node props) this))"

definition new_BucketDeployment :: "'p Stack \<Rightarrow> string \<Rightarrow> BucketDeploymentProps \<Rightarrow> 'p Stack" where
  "new_BucketDeployment this cid props =
     declare_node (stack_path this @ [cid]) (BucketDeployment_node props) this"

definition new_CfnOutput :: "'p Stack \<Rightarrow> string \<Rightarrow> CfnOutputProps \<Rightarrow> 'p Stack" where
  "new_CfnOutput this cid props =
     declare_node (stack_path this @ [cid]) (CfnOutput_node props) this"

subsection \<open>WafStack\<close>

record 'p WafStack = "'p Stack" +
  webAcl :: CfnWebACL

definition WafStack :: "construct_path \<Rightarrow> string \<Rightarrow> 'p option \<Rightarrow> 'p option WafStack" where
  "WafStack scp cid props =
     (let this = new_Stack scp cid props;
          (acl, this) = new_CfnWebACL this ''WebACL''
            \<lparr>scope = ''CLOUDFRONT'',
             defaultAction = Allow,
             visibilityConfig =
               \<lparr>sampledRequestsEnabled = True,
                cloudWatchMetricsEnabled = True,
                metricName = ''WebACL''\<rparr>,
             rules =
               [\<lparr>name = ''RateLimitRule'',
                 priority = 1,
                 statement = RateBasedStatement 2000 ''IP'',
                 action = Block,
                 ruleVisibilityConfig =
                   \<lparr>sampledRequestsEnabled = True,
                    cloudWatchMetricsEnabled = True,
                    metricName = ''RateLimitRule''\<rparr>\<rparr>]\<rparr>
      in Stack.extend this (WafStack.fields acl))"

subsection \<open>BackendStack\<close>

record 'p BackendStack = "'p Stack" +
  apiGateway :: RestApi

definition BackendStack :: "construct_path \<Rightarrow> string \<Rightarrow> 'p option \<Rightarrow> 'p option BackendStack" where
  "BackendStack scp cid props =
     (let this = new_Stack scp cid props;
          (lambdaFunction1, this) = new_Function this ''ApiHandler1''
            \<lparr>runtime = NODEJS_18_X,
             handler = ''index.handler'',
             code = Code_fromAsset ''lambda/sample-lambda-1''\<rparr>;
          (lambdaFunction2, this) = new_Function this ''ApiHandler2''
            \<lparr>runtime = NODEJS_18_X,
             handler = ''index.handler'',
             code = Code_fromAsset ''lambda/sample-lambda-2''\<rparr>;
          (api_gateway, this) = new_RestApi this ''Api''
            \<lparr>restApiName = ''Serverless API'',
             description = ''API Gateway for serverless web app'',
             defaultCorsPreflightOptions =
               Some \<lparr>allowOrigins = ALL_ORIGINS, allowMethods = ALL_METHODS\<rparr>,
             deploy = None\<rparr>;
          integration1 = LambdaIntegration lambdaFunction1;
          integration2 = LambdaIntegration lambdaFunction2;
          (api, this) = addResource (root api_gateway) ''api'' this;
          (lambda1Resource, this) = addResource api ''lambda-1'' this;
          (lambda2Resource, this) = addResource api ''lambda-2'' this;
          this = addMethod lambda1Resource ''GET'' integration1 this;
          this = addMethod lambda2Resource ''GET'' integration2 this
      in Stack.extend this (BackendStack.fields api_gateway))"

subsection \<open>FrontendStack\<close>

text \<open>
  The stack's properties are the toolkit's stack properties together with the two handles
  passed in from the other stacks.
\<close>

record 'p FrontendStackProps =
  stackProps :: 'p
  props_apiGateway :: RestApi
  props_webAcl :: CfnWebACL

record 'p FrontendStack = "'p Stack" +
  bucket :: Bucket
  distribution :: Distribution

definition FrontendStack ::
  "construct_path \<Rightarrow> string \<Rightarrow> 'p FrontendStackProps \<Rightarrow> 'p FrontendStackProps FrontendStack" where
  "FrontendStack scp cid props =
     (let this = new_Stack scp cid props;
          (bkt, this) = new_Bucket this ''WebsiteBucket''
            \<lparr>websiteIndexDocument = Some ''index.html'',
             websiteErrorDocument = Some ''error.html'',
             publicReadAccess = False,
             blockPublicAccess = BLOCK_ALL,
             removalPolicy = DESTROY\<rparr>;
          s3Origin = S3BucketOrigin_withOriginAccessControl bkt;
          apiOrigin = RestApiOrigin (props_apiGateway props);
          (dist, this) = new_Distribution this ''Distribution''
            \<lparr>defaultBehavior =
               \<lparr>origin = s3Origin,
                viewerProtocolPolicy = REDIRECT_TO_HTTPS,
                cachePolicy = None\<rparr>,
             additionalBehaviors =
               [(''/api/*'',
                 \<lparr>origin = apiOrigin,
                  viewerProtocolPolicy = REDIRECT_TO_HTTPS,
                  cachePolicy = Some CACHING_DISABLED\<rparr>)],
             defaultRootObject = ''index.html'',
             webAclId = attrArn (props_webAcl props)\<rparr>;
          this = new_BucketDeployment this ''DeployWebsite''
            \<lparr>sources = [Source_asset ''web''],
             destinationBucket = bkt,
             deploymentDistribution = dist,
             distributionPaths = [''/*'']\<rparr>;
          this = new_CfnOutput this ''DistributionDomainName''
            \<lparr>output_value = distributionDomainName dist\<rparr>
      in Stack.extend this (FrontendStack.fields bkt dist))"

subsection \<open>The deprecated main stack\<close>

definition CdkServerlessWebAppPatternStack ::
  "construct_path \<Rightarrow> string \<Rightarrow> 'p option \<Rightarrow> 'p option Stack" where
  "CdkServerlessWebAppPatternStack scp cid props = new_Stack scp cid props"

subsection \<open>Views of a stack's declarations\<close>

definition webACLs :: "('p, 'm) Stack_scheme \<Rightarrow> CfnWebACLProps list" where
  "webACLs st = concat (map (\<lambda>(p, c). case c of WebACL_node a \<Rightarrow> [a] | _ \<Rightarrow> []) (nodes st))"

definition deployments :: "('p, 'm) Stack_scheme \<Rightarrow> BucketDeploymentProps list" where
  "deployments st =
     concat (map (\<lambda>(p, c). case c of BucketDeployment_node d \<Rightarrow> [d] | _ \<Rightarrow> []) (nodes st))"

definition outputs :: "('p, 'm) Stack_scheme \<Rightarrow> token list" where
  "outputs st =
     concat (map (\<lambda>(p, c). case c of CfnOutput_node out \<Rightarrow> [output_value out] | _ \<Rightarrow> []) (nodes st))"

text \<open>
  The route table of a stack: one entry per declared method, giving the request path of
  its resource, the method and the integration it is mapped to.
\<close>

definition routeTable :: "('p, 'm) Stack_scheme \<Rightarrow> (string \<times> string \<times> Integration) list" where
  "routeTable st =
     concat (map (\<lambda>(p, c). case c of
        Method_node m \<Rightarrow> [(resource_path (method_resource m), httpMethod m, integration m)]
      | _ \<Rightarrow> []) (nodes st))"

text \<open>The entries of the route table that are mapped to a compute endpoint.\<close>

definition endpoint_routes :: "('p, 'm) Stack_scheme \<Rightarrow> (string \<times> string \<times> Function) list" where
  "endpoint_routes st =
     concat (map (\<lambda>(p, m, i). case i of
        LambdaIntegration f \<Rightarrow> [(p, m, f)]
      | MockIntegration cors \<Rightarrow> []) (routeTable st))"

text \<open>The entry of the route table for a request path and method, if there is one.\<close>

definition route :: "('p, 'm) Stack_scheme \<Rightarrow> string \<Rightarrow> string \<Rightarrow> Integration option" where
  "route st p m = map_of (map (\<lambda>(p, m, i). ((p, m), i)) (routeTable st)) (p, m)"

text \<open>
  Modelled from the spec: the path pattern of the default behaviour. The source gives the
  default behaviour no pattern; the spec's data model gives it the pattern \<^verbatim>\<open>*\<close>. The
  additional behaviours carry the patterns the source writes.
\<close>

definition behaviors :: "DistributionProps \<Rightarrow> (string \<times> BehaviorOptions) list" where
  "behaviors d = (''*'', defaultBehavior d) # additionalBehaviors d"

text \<open>
  The directories of the repository that asset declarations name, with the files each one
  holds. \<^verbatim>\<open>Source.asset(dir)\<close> publishes the files of the directory.
\<close>

definition repository_directories :: "(string \<times> string list) list" where
  "repository_directories =
     [(''lambda/sample-lambda-1'', [''index.js'']),
      (''web'', [''index.html''])]"

fun asset_files :: "Source \<Rightarrow> string list" where
  "asset_files (Source_asset dir) =
     (case map_of repository_directories dir of None \<Rightarrow> [] | Some fs \<Rightarrow> fs)"

definition published_files :: "BucketDeploymentProps \<Rightarrow> string list" where
  "published_files d = concat (map asset_files (sources d))"

section \<open>JavaScript values\<close>

text \<open>
  The values the handler and the demo page compute with are parsed JSON, together with
  \<^verbatim>\<open>undefined\<close>, the result of reading a property that is not there. Neither program
  does arithmetic: a number is only tested for truth and printed. A number is therefore
  represented by the text that \<^verbatim>\<open>Number.prototype.toString\<close> gives it, such as
  \<^verbatim>\<open>42\<close>, \<^verbatim>\<open>0.5\<close>, \<^verbatim>\<open>1e+21\<close>, \<^verbatim>\<open>NaN\<close> or \<^verbatim>\<open>-Infinity\<close>; both zeros have the text
  \<^verbatim>\<open>0\<close>. An object is the list of its properties in insertion order, each name once.
\<close>

datatype jsval =
    JUndefined
  | JNull
  | JBool bool
  | JNum string
  | JStr string
  | JArr "jsval list"
  | JObj "(string \<times> jsval) list"

definition nullish :: "jsval \<Rightarrow> bool" where
  "nullish v = (v = JUndefined \<or> v = JNull)"

fun truthy :: "jsval \<Rightarrow> bool" where
  "truthy JUndefined = False"
| "truthy JNull = False"
| "truthy (JBool b) = b"
| "truthy (JNum n) = (n \<noteq> ''0'' \<and> n \<noteq> ''NaN'')"
| "truthy (JStr s) = (s \<noteq> [])"
| "truthy (JArr xs) = True"
| "truthy (JObj kvs) = True"

text \<open>
  Reading a property by name. The two names read by the handler, \<^verbatim>\<open>requestContext\<close> and
  \<^verbatim>\<open>requestId\<close>, are on no prototype, so only an object's own properties can provide
  them; every other value that is not nullish yields \<^verbatim>\<open>undefined\<close>.
\<close>

fun own_property :: "jsval \<Rightarrow> string \<Rightarrow> jsval" where
  "own_property (JObj kvs) k = (case map_of kvs k of None \<Rightarrow> JUndefined | Some v \<Rightarrow> v)"
| "own_property v k = JUndefined"

datatype js_error = TypeError

text \<open>\<^verbatim>\<open>v.k\<close> throws on \<^verbatim>\<open>null\<close> and \<^verbatim>\<open>undefined\<close>; \<^verbatim>\<open>v?.k\<close> yields \<^verbatim>\<open>undefined\<close> there.\<close>

definition get_property :: "jsval \<Rightarrow> string \<Rightarrow> js_error + jsval" where
  "get_property v k = (if nullish v then Inl TypeError else Inr (own_property v k))"

definition get_property_optional :: "jsval \<Rightarrow> string \<Rightarrow> jsval" where
  "get_property_optional v k = (if nullish v then JUndefined else own_property v k)"

text \<open>\<^verbatim>\<open>a || b\<close>\<close>

definition logical_or :: "jsval \<Rightarrow> jsval \<Rightarrow> jsval" where
  "logical_or a b = (if truthy a then a else b)"

subsection \<open>\<^verbatim>\<open>JSON.stringify\<close>\<close>

text \<open>A finite number is printed as it is written; the others are printed as \<^verbatim>\<open>null\<close>.\<close>

definition number_text :: "string \<Rightarrow> string" where
  "number_text n =
     (if n = ''NaN'' \<or> n = ''Infinity'' \<or> n = ''-Infinity'' then ''null'' else n)"

definition hex :: "nat \<Rightarrow> char" where
  "hex n = ''0123456789abcdef'' ! n"

definition escape :: "char \<Rightarrow> string" where
  "escape c =
     (if c = CHR 0x08 then [CHR 0x5C, CHR ''b'']
      else if c = CHR 0x09 then [CHR 0x5C, CHR ''t'']
      else if c = CHR 0x0A then [CHR 0x5C, CHR ''n'']
      else if c = CHR 0x0C then [CHR 0x5C, CHR ''f'']
      else if c = CHR 0x0D then [CHR 0x5C, CHR ''r'']
      else if c = CHR 0x22 then [CHR 0x5C, CHR 0x22]
      else if c = CHR 0x5C then [CHR 0x5C, CHR 0x5C]
      else if (of_char c :: nat) < 32
        then [CHR 0x5C, CHR ''u'', CHR ''0'', CHR ''0'',
              hex (of_char c div 16), hex (of_char c mod 16)]
      else [c])"

definition QuoteJSONString :: "string \<Rightarrow> string" where
  "QuoteJSONString s = [CHR 0x22] @ concat (map escape s) @ [CHR 0x22]"

fun join :: "string \<Rightarrow> string list \<Rightarrow> string" where
  "join sep [] = []"
| "join sep [x] = x"
| "join sep (x # y # ys) = x @ sep @ join sep (y # ys)"

text \<open>
  The brackets around the serialised members of an array or object: nothing between them
  when there is no member, one line for all when the gap is empty, one line per member,
  indented by one more gap than the enclosing line, otherwise.
\<close>

definition wrap :: "string \<Rightarrow> string \<Rightarrow> string \<Rightarrow> string \<Rightarrow> string list \<Rightarrow> string" where
  "wrap gap stepback opn cls partial =
     (if partial = [] then opn @ cls
      else if gap = [] then opn @ join '','' partial @ cls
      else opn @ [CHR 0x0A] @ (stepback @ gap)
             @ join ('','' @ [CHR 0x0A] @ (stepback @ gap)) partial
             @ [CHR 0x0A] @ stepback @ cls)"

text \<open>
  \<open>None\<close> is \<^verbatim>\<open>undefined\<close>: a property with such a value is left out of an object and
  printed as \<^verbatim>\<open>null\<close> in an array.
\<close>

fun SerializeJSONProperty :: "string \<Rightarrow> string \<Rightarrow> jsval \<Rightarrow> string option" where
  "SerializeJSONProperty gap ind JUndefined = None"
| "SerializeJSONProperty gap ind JNull = Some ''null''"
| "SerializeJSONProperty gap ind (JBool b) = Some (if b then ''true'' else ''false'')"
| "SerializeJSONProperty gap ind (JNum n) = Some (number_text n)"
| "SerializeJSONProperty gap ind (JStr s) = Some (QuoteJSONString s)"
| "SerializeJSONProperty gap ind (JArr xs) =
     Some (wrap gap ind ''['' '']''
       (map (\<lambda>x. case SerializeJSONProperty gap (ind @ gap) x of
                   None \<Rightarrow> ''null''
                 | Some t \<Rightarrow> t) xs))"
| "SerializeJSONProperty gap ind (JObj kvs) =
     Some (wrap gap ind ''{'' ''}''
       (concat (map (\<lambda>kv. case SerializeJSONProperty gap (ind @ gap) (snd kv) of
                   None \<Rightarrow> []
                 | Some t \<Rightarrow>
                     [QuoteJSONString (fst kv) @ '':'' @ (if gap = [] then [] else '' '') @ t])
          kvs)))"

text \<open>\<^verbatim>\<open>JSON.stringify(value)\<close> is \<open>JSON_stringify value 0\<close>, and
  \<^verbatim>\<open>JSON.stringify(value, null, 2)\<close> is \<open>JSON_stringify value 2\<close>.\<close>

definition JSON_stringify :: "jsval \<Rightarrow> nat \<Rightarrow> string option" where
  "JSON_stringify v space = SerializeJSONProperty (replicate (min space 10) CHR '' '') [] v"

text \<open>A value inside a template literal or among the arguments of \<^verbatim>\<open>console.log\<close>.\<close>

definition text_or_undefined :: "string option \<Rightarrow> string" where
  "text_or_undefined t = (case t of None \<Rightarrow> ''undefined'' | Some s \<Rightarrow> s)"

section \<open>Time values and their ISO format\<close>

text \<open>
  \<^verbatim>\<open>new Date()\<close> holds the time value read from the clock: the milliseconds since the
  epoch, an integer of magnitude at most 8.64e15. These are the language's own
  definitions of the calendar fields of a time value.
\<close>

definition time_value :: "int \<Rightarrow> bool" where
  "time_value t = (- 8640000000000000 \<le> t \<and> t \<le> 8640000000000000)"

definition msPerDay :: int where
  "msPerDay = 86400000"

definition Day :: "int \<Rightarrow> int" where
  "Day t = t div msPerDay"

definition HourFromTime :: "int \<Rightarrow> int" where
  "HourFromTime t = (t div 3600000) mod 24"

definition MinFromTime :: "int \<Rightarrow> int" where
  "MinFromTime t = (t div 60000) mod 60"

definition SecFromTime :: "int \<Rightarrow> int" where
  "SecFromTime t = (t div 1000) mod 60"

definition msFromTime :: "int \<Rightarrow> int" where
  "msFromTime t = t mod 1000"

definition DaysInYear :: "int \<Rightarrow> int" where
  "DaysInYear y =
     (if y mod 4 \<noteq> 0 then 365
      else if y mod 100 \<noteq> 0 then 366
      else if y mod 400 \<noteq> 0 then 365
      else 366)"

definition DayFromYear :: "int \<Rightarrow> int" where
  "DayFromYear y =
     365 * (y - 1970) + (y - 1969) div 4 - (y - 1901) div 100 + (y - 1601) div 400"

text \<open>
  The year of a day is the largest year that starts on or before it. It is found from an
  estimate, first going down while the year starts after the day, then up while the next
  year starts on or before it. Both searches end, since every year starts later than the
  one before.
\<close>

function year_down :: "int \<Rightarrow> int \<Rightarrow> int" where
  "year_down d y = (if d < DayFromYear y then year_down d (y - 1) else y)"
  by pat_completeness auto
termination
proof (relation "measure (\<lambda>(d, y). nat (DayFromYear y - d))")
  show "wf (measure (\<lambda>(d, y). nat (DayFromYear y - d)))"
    by simp
next
  fix d y :: int
  assume after: "d < DayFromYear y"
  have "(y - 1 - 1969) div 4 \<le> (y - 1969) div 4"
    and "(y - 1 - 1601) div 400 \<le> (y - 1601) div 400"
    by (simp_all add: zdiv_mono1)
  moreover have "(y - 1901) div 100 \<le> (y - 1 - 1901 + 100) div 100"
    by (simp add: zdiv_mono1)
  then have "(y - 1901) div 100 \<le> (y - 1 - 1901) div 100 + 1"
    by simp
  ultimately have "DayFromYear (y - 1) < DayFromYear y"
    by (simp add: DayFromYear_def)
  with after show "((d, y - 1), (d, y)) \<in> measure (\<lambda>(d, y). nat (DayFromYear y - d))"
    by simp
qed

function year_up :: "int \<Rightarrow> int \<Rightarrow> int" where
  "year_up d y = (if DayFromYear (y + 1) \<le> d then year_up d (y + 1) else y)"
  by pat_completeness auto
termination
proof (relation "measure (\<lambda>(d, y). nat (d + 1 - DayFromYear (y + 1)))")
  show "wf (measure (\<lambda>(d, y). nat (d + 1 - DayFromYear (y + 1))))"
    by simp
next
  fix d y :: int
  assume before: "DayFromYear (y + 1) \<le> d"
  have "(y + 1 - 1969) div 4 \<le> (y + 1 + 1 - 1969) div 4"
    and "(y + 1 - 1601) div 400 \<le> (y + 1 + 1 - 1601) div 400"
    by (simp_all add: zdiv_mono1)
  moreover have "(y + 1 + 1 - 1901) div 100 \<le> (y + 1 - 1901 + 100) div 100"
    by (simp add: zdiv_mono1)
  then have "(y + 1 + 1 - 1901) div 100 \<le> (y + 1 - 1901) div 100 + 1"
    by simp
  ultimately have "DayFromYear (y + 1) < DayFromYear (y + 1 + 1)"
    by (simp add: DayFromYear_def)
  with before
  show "((d, y + 1), (d, y)) \<in> measure (\<lambda>(d, y). nat (d + 1 - DayFromYear (y + 1)))"
    by simp
qed

definition YearFromDay :: "int \<Rightarrow> int" where
  "YearFromDay d = year_up d (year_down d (1970 + d div 365))"

definition YearFromTime :: "int \<Rightarrow> int" where
  "YearFromTime t = YearFromDay (Day t)"

definition InLeapYear :: "int \<Rightarrow> int" where
  "InLeapYear y = (if DaysInYear y = 366 then 1 else 0)"

definition DayWithinYear :: "int \<Rightarrow> int" where
  "DayWithinYear t = Day t - DayFromYear (YearFromTime t)"

text \<open>Months count from 0; \<open>L\<close> is 1 in a leap year and 0 otherwise.\<close>

definition MonthFromDay :: "int \<Rightarrow> int \<Rightarrow> int" where
  "MonthFromDay d L =
     (if d < 31 then 0
      else if d < 59 + L then 1
      else if d < 90 + L then 2
      else if d < 120 + L then 3
      else if d < 151 + L then 4
      else if d < 181 + L then 5
      else if d < 212 + L then 6
      else if d < 243 + L then 7
      else if d < 273 + L then 8
      else if d < 304 + L then 9
      else if d < 334 + L then 10
      else 11)"

definition DaysBeforeMonth :: "int \<Rightarrow> int \<Rightarrow> int" where
  "DaysBeforeMonth m L =
     (if m = 0 then 0
      else if m = 1 then 31
      else if m = 2 then 59 + L
      else if m = 3 then 90 + L
      else if m = 4 then 120 + L
      else if m = 5 then 151 + L
      else if m = 6 then 181 + L
      else if m = 7 then 212 + L
      else if m = 8 then 243 + L
      else if m = 9 then 273 + L
      else if m = 10 then 304 + L
      else 334 + L)"

definition DaysInMonth :: "int \<Rightarrow> int \<Rightarrow> int" where
  "DaysInMonth m L =
     (if m = 1 then 28 + L
      else if m = 3 \<or> m = 5 \<or> m = 8 \<or> m = 10 then 30
      else 31)"

definition DateFromDay :: "int \<Rightarrow> int \<Rightarrow> int" where
  "DateFromDay d L = d - DaysBeforeMonth (MonthFromDay d L) L + 1"

subsection \<open>\<^verbatim>\<open>Date.prototype.toISOString\<close>\<close>

definition digit :: "int \<Rightarrow> char" where
  "digit n = char_of (48 + n)"

text \<open>The last \<open>k\<close> decimal digits of a number, with leading zeros.\<close>

fun pad :: "nat \<Rightarrow> int \<Rightarrow> string" where
  "pad 0 n = []"
| "pad (Suc k) n = pad k (n div 10) @ [digit (n mod 10)]"

text \<open>Four digits for the years 0 to 9999, a sign and six digits for the others.\<close>

definition year_text :: "int \<Rightarrow> string" where
  "year_text y =
     (if 0 \<le> y \<and> y \<le> 9999 then pad 4 y
      else if y < 0 then ''-'' @ pad 6 (- y)
      else ''+'' @ pad 6 y)"

definition toISOString :: "int \<Rightarrow> string" where
  "toISOString t =
     (let y = YearFromTime t;
          d = DayWithinYear t;
          L = InLeapYear y
      in year_text y @ ''-'' @ pad 2 (MonthFromDay d L + 1) @ ''-'' @ pad 2 (DateFromDay d L)
         @ ''T'' @ pad 2 (HourFromTime t) @ '':'' @ pad 2 (MinFromTime t)
         @ '':'' @ pad 2 (SecFromTime t) @ ''.'' @ pad 3 (msFromTime t) @ ''Z'')"

subsection \<open>Reading an ISO-8601 date-time\<close>

text \<open>
  A reader of the complete ISO-8601 date-time form in UTC, \<^verbatim>\<open>YYYY-MM-DDTHH:mm:ss.sssZ\<close>
  with a four-digit year or a signed six-digit year: it checks the separators, the
  digits and the range of every field, and gives the time value written.
\<close>

definition digit_value :: "char \<Rightarrow> int option" where
  "digit_value c =
     (if 48 \<le> (of_char c :: int) \<and> (of_char c :: int) \<le> 57
      then Some (of_char c - 48) else None)"

fun number_from :: "int \<Rightarrow> string \<Rightarrow> int option" where
  "number_from acc [] = Some acc"
| "number_from acc (c # cs) =
     (case digit_value c of None \<Rightarrow> None | Some v \<Rightarrow> number_from (10 * acc + v) cs)"

fun parse_year :: "string \<Rightarrow> (int \<times> string) option" where
  "parse_year (c # y1 # y2 # y3 # y4 # y5 # y6 # rest) =
     (if c = CHR ''+'' \<or> c = CHR ''-''
      then (case number_from 0 [y1, y2, y3, y4, y5, y6] of
              None \<Rightarrow> None
            | Some n \<Rightarrow>
                if c = CHR ''-'' then (if n = 0 then None else Some (- n, rest))
                else Some (n, rest))
      else (case number_from 0 [c, y1, y2, y3] of
              None \<Rightarrow> None
            | Some n \<Rightarrow> Some (n, y4 # y5 # y6 # rest)))"
| "parse_year _ = None"

fun parse_rest :: "string \<Rightarrow> (int \<times> int \<times> int \<times> int \<times> int \<times> int) option" where
  "parse_rest [c1, m1, m2, c2, d1, d2, c3, h1, h2, c4, i1, i2, c5, s1, s2, c6, f1, f2, f3, c7] =
     (if c1 = CHR ''-'' \<and> c2 = CHR ''-'' \<and> c3 = CHR ''T'' \<and> c4 = CHR '':'' \<and> c5 = CHR '':''
         \<and> c6 = CHR ''.'' \<and> c7 = CHR ''Z''
      then (case (number_from 0 [m1, m2], number_from 0 [d1, d2], number_from 0 [h1, h2],
                  number_from 0 [i1, i2], number_from 0 [s1, s2], number_from 0 [f1, f2, f3]) of
              (Some m, Some d, Some h, Some i, Some s, Some f) \<Rightarrow> Some (m, d, h, i, s, f)
            | _ \<Rightarrow> None)
      else None)"
| "parse_rest _ = None"

definition parse_date_time :: "string \<Rightarrow> int option" where
  "parse_date_time s =
     (case parse_year s of
        None \<Rightarrow> None
      | Some (y, rest) \<Rightarrow>
          (case parse_rest rest of
             None \<Rightarrow> None
           | Some (m, d, h, i, sec, f) \<Rightarrow>
               if 1 \<le> m \<and> m \<le> 12 \<and> 1 \<le> d \<and> d \<le> DaysInMonth (m - 1) (InLeapYear y)
                  \<and> h \<le> 23 \<and> i \<le> 59 \<and> sec \<le> 59
               then (let t = (DayFromYear y + DaysBeforeMonth (m - 1) (InLeapYear y) + d - 1)
                                * msPerDay
                              + h * 3600000 + i * 60000 + sec * 1000 + f
                     in if time_value t then Some t else None)
               else None))"

section \<open>The handler of sample-lambda-1\<close>

record LambdaResponse =
  statusCode :: int
  headers :: "(string \<times> string) list"
  body :: "string option"

text \<open>
  \<open>now\<close> is the time value that \<^verbatim>\<open>new Date()\<close> reads from the clock during the call. The
  result is what \<^verbatim>\<open>console.log\<close> printed, and either the error the returned promise is
  rejected with or the response it is fulfilled with.
\<close>

definition handler :: "int \<Rightarrow> jsval \<Rightarrow> string list \<times> (js_error + LambdaResponse)" where
  "handler now event =
     (let console = [''Event: '' @ text_or_undefined (JSON_stringify event 2)]
      in case get_property event ''requestContext'' of
           Inl e \<Rightarrow> (console, Inl e)
         | Inr requestContext \<Rightarrow>
             (let response =
                \<lparr>statusCode = 200,
                 headers =
                   [(''Content-Type'', ''application/json''),
                    (''Access-Control-Allow-Origin'', ''*''),
                    (''Access-Control-Allow-Headers'', ''Content-Type''),
                    (''Access-Control-Allow-Methods'', ''OPTIONS,POST,GET'')],
                 body = JSON_stringify (JObj
                   [(''message'', JStr ''Hello from sample-lambda-1!''),
                    (''timestamp'', JStr (toISOString now)),
                    (''requestId'',
                       logical_or (get_property_optional requestContext ''requestId'')
                         (JStr ''unknown''))]) 0\<rparr>
              in (console, Inr response)))"

text \<open>
  The request identifier of an invocation, when one is available in its context: the
  string \<^verbatim>\<open>requestId\<close> of the event's \<^verbatim>\<open>requestContext\<close> object.
\<close>

definition request_identifier :: "jsval \<Rightarrow> string option" where
  "request_identifier event =
     (case event of
        JObj kvs \<Rightarrow>
          (case map_of kvs ''requestContext'' of
             Some (JObj ctx) \<Rightarrow>
               (case map_of ctx ''requestId'' of
                  Some (JStr rid) \<Rightarrow> Some rid
                | _ \<Rightarrow> None)
           | _ \<Rightarrow> None)
      | _ \<Rightarrow> None)"

text \<open>
  An invocation event: a JSON object; where its \<^verbatim>\<open>requestContext\<close> is an object that has
  a \<^verbatim>\<open>requestId\<close>, this is \<^verbatim>\<open>null\<close> or an identifier, a string that is not empty. The
  events the front door builds for a request are of this kind, with an identifier.
\<close>

definition invocation_event :: "jsval \<Rightarrow> bool" where
  "invocation_event event =
     (case event of
        JObj kvs \<Rightarrow>
          (case map_of kvs ''requestContext'' of
             Some (JObj ctx) \<Rightarrow>
               (case map_of ctx ''requestId'' of
                  None \<Rightarrow> True
                | Some JNull \<Rightarrow> True
                | Some (JStr rid) \<Rightarrow> rid \<noteq> []
                | Some _ \<Rightarrow> False)
           | _ \<Rightarrow> True)
      | _ \<Rightarrow> False)"

text \<open>An event of a request through the front door, and a reading of the clock.\<close>

definition sample_event :: jsval where
  "sample_event =
     JObj [(''httpMethod'', JStr ''GET''),
           (''path'', JStr ''/api/lambda-1''),
           (''requestContext'',
              JObj [(''requestId'', JStr ''c6af9ac6-7b61''),
                    (''requestTimeEpoch'', JNum ''1714979289100'')])]"

text \<open>An event of a direct invocation, which carries no request context.\<close>

definition bare_event :: jsval where
  "bare_event = JObj [(''httpMethod'', JStr ''GET'')]"

definition sample_clock :: int where
  "sample_clock = 1714979289123"

section \<open>The demo page\<close>

text \<open>
  What the page awaits: \<^verbatim>\<open>fetch(endpoint)\<close> is rejected with an error or fulfilled with a
  response, whose \<^verbatim>\<open>json()\<close> is in turn rejected with an error or fulfilled with the parsed
  body. The page reads nothing else of the response; its status is kept to tell responses
  apart. The state of the page is the markup last assigned to the \<^verbatim>\<open>innerHTML\<close> of its
  result element, as a string, and the list of the requests made. The assigned string is
  not what the browser then shows: the browser parses it as HTML, so markup inside an
  interpolated message is rendered and not displayed as text.
\<close>

datatype thrown = Thrown (message: string)

record HttpResponse =
  status :: nat
  json :: "thrown + jsval"

record Page =
  innerHTML :: string
  fetched :: "string list"

definition success_markup :: "string \<Rightarrow> jsval \<Rightarrow> string" where
  "success_markup lambdaName data =
     [CHR 0x0A] @ ''                    '' @
     ''<h3>'' @ [CHR 0xE2, CHR 0x9C, CHR 0x85] @ '' '' @ lambdaName @ '' Response Success!</h3>'' @
     [CHR 0x0A] @ ''                    '' @
     ''<pre>'' @ text_or_undefined (JSON_stringify data 2) @ ''</pre>'' @
     [CHR 0x0A] @ ''                ''"

definition failure_markup :: "string \<Rightarrow> thrown \<Rightarrow> string" where
  "failure_markup lambdaName error =
     [CHR 0x0A] @ ''                    '' @
     ''<h3>'' @ [CHR 0xE2, CHR 0x9D, CHR 0x8C] @ '' '' @ lambdaName @ '' Call Failed</h3>'' @
     [CHR 0x0A] @ ''                    '' @
     ''<p>Error: '' @ message error @ ''</p>'' @
     [CHR 0x0A] @ ''                ''"

text \<open>
  \<open>fetch\<close> is the network as the page sees it; \<open>fetched\<close> records every call of it, and
  \<open>innerHTML\<close> the string last assigned to the element \<^verbatim>\<open>result\<close>.
\<close>

definition testApi ::
  "(string \<Rightarrow> thrown + HttpResponse) \<Rightarrow> string \<Rightarrow> string \<Rightarrow> Page \<Rightarrow> Page" where
  "testApi fetch endpoint lambdaName page =
     (let page = page\<lparr>innerHTML := ''Calling '' @ lambdaName @ ''...''\<rparr>;
          page = page\<lparr>fetched := fetched page @ [endpoint]\<rparr>
      in case fetch endpoint of
           Inl error \<Rightarrow> page\<lparr>innerHTML := failure_markup lambdaName error\<rparr>
         | Inr response \<Rightarrow>
             (case json response of
                Inl error \<Rightarrow> page\<lparr>innerHTML := failure_markup lambdaName error\<rparr>
              | Inr data \<Rightarrow> page\<lparr>innerHTML := success_markup lambdaName data\<rparr>))"

definition testLambda1 :: "(string \<Rightarrow> thrown + HttpResponse) \<Rightarrow> Page \<Rightarrow> Page" where
  "testLambda1 fetch page = testApi fetch ''/api/lambda-1'' ''Lambda 1'' page"

definition testLambda2 :: "(string \<Rightarrow> thrown + HttpResponse) \<Rightarrow> Page \<Rightarrow> Page" where
  "testLambda2 fetch page = testApi fetch ''/api/lambda-2'' ''Lambda 2'' page"

text \<open>The error caught by the \<^verbatim>\<open>catch\<close> of \<open>testApi\<close>, if one of the two awaited promises is rejected.\<close>

definition thrown_in_try :: "thrown + HttpResponse \<Rightarrow> thrown option" where
  "thrown_in_try outcome =
     (case outcome of
        Inl error \<Rightarrow> Some error
      | Inr response \<Rightarrow> (case json response of Inl error \<Rightarrow> Some error | Inr data \<Rightarrow> None))"

text \<open>
  A front door answering for an endpoint that failed: status 502 and a JSON body carrying
  the failure text.
\<close>

definition failed_invocation_response :: HttpResponse where
  "failed_invocation_response =
     \<lparr>status = 502, json = Inr (JObj [(''message'', JStr ''Internal server error'')])\<rparr>"

definition fetch_failed_invocation :: "string \<Rightarrow> thrown + HttpResponse" where
  "fetch_failed_invocation endpoint = Inr failed_invocation_response"

definition fresh_page :: Page where
  "fresh_page = \<lparr>innerHTML = [], fetched = []\<rparr>"

text \<open>A network that cannot be reached: \<^verbatim>\<open>fetch\<close> is rejected.\<close>

definition fetch_network_down :: "string \<Rightarrow> thrown + HttpResponse" where
  "fetch_network_down endpoint = Inl (Thrown ''Failed to fetch'')"

section \<open>What the stacks declare\<close>

declare year_down.simps [simp del] year_up.simps [simp del]

lemmas construct_defs = new_Stack_def declare_node_def new_CfnWebACL_def new_Function_def
  new_RestApi_def root_def addResource_def addMethod_def addCorsPreflight_def
  default_preflight_def new_Bucket_def new_Distribution_def
  new_BucketDeployment_def new_CfnOutput_def Let_def Stack.defs

subsection \<open>WafStack\<close>

lemma WafStack_nodes:
  "nodes (WafStack scp cid props) =
     [(scp @ [cid, ''WebACL''], WebACL_node (webAcl_props (webAcl (WafStack scp cid props))))]"
  by (simp add: WafStack_def construct_defs WafStack.defs)

lemma WafStack_webAcl_path:
  "webAcl_path (webAcl (WafStack scp cid props)) = scp @ [cid, ''WebACL'']"
  by (simp add: WafStack_def construct_defs WafStack.defs)

lemma WafStack_rules:
  "rules (webAcl_props (webAcl (WafStack scp cid props))) =
     [\<lparr>name = ''RateLimitRule'', priority = 1, statement = RateBasedStatement 2000 ''IP'',
       action = Block,
       ruleVisibilityConfig = \<lparr>sampledRequestsEnabled = True, cloudWatchMetricsEnabled = True,
         metricName = ''RateLimitRule''\<rparr>\<rparr>]"
  by (simp add: WafStack_def construct_defs WafStack.defs)

lemma WafStack_defaultAction:
  "defaultAction (webAcl_props (webAcl (WafStack scp cid props))) = Allow"
  by (simp add: WafStack_def construct_defs WafStack.defs)

text \<open>
  C4: the WafStack declares exactly one firewall policy, the one its \<^verbatim>\<open>webAcl\<close> field
  refers to. Its default action is allow, and its rule list is a single rate-based rule
  with limit 2000 aggregated by IP, action block and priority 1; rule names and rule
  priorities do not repeat.
\<close>

theorem WafStack_filter_policy:
  "webACLs (WafStack scp cid props) = [webAcl_props (webAcl (WafStack scp cid props))]
   \<and> defaultAction (webAcl_props (webAcl (WafStack scp cid props))) = Allow
   \<and> map statement (rules (webAcl_props (webAcl (WafStack scp cid props))))
       = [RateBasedStatement 2000 ''IP'']
   \<and> map action (rules (webAcl_props (webAcl (WafStack scp cid props)))) = [Block]
   \<and> map priority (rules (webAcl_props (webAcl (WafStack scp cid props)))) = [1]
   \<and> distinct (map name (rules (webAcl_props (webAcl (WafStack scp cid props)))))
   \<and> distinct (map priority (rules (webAcl_props (webAcl (WafStack scp cid props)))))"
  by (simp add: WafStack_nodes WafStack_rules WafStack_defaultAction webACLs_def)

subsection \<open>BackendStack\<close>

lemma BackendStack_node_paths:
  "map fst (nodes (BackendStack scp cid props)) =
     [scp @ [cid, ''ApiHandler1''], scp @ [cid, ''ApiHandler2''], scp @ [cid, ''Api''],
      scp @ [cid, ''Api'', ''Endpoint''],
      scp @ [cid, ''Api'', ''Default''],
      scp @ [cid, ''Api'', ''Default'', ''OPTIONS''],
      scp @ [cid, ''Api'', ''Default'', ''api''],
      scp @ [cid, ''Api'', ''Default'', ''api'', ''OPTIONS''],
      scp @ [cid, ''Api'', ''Default'', ''api'', ''lambda-1''],
      scp @ [cid, ''Api'', ''Default'', ''api'', ''lambda-1'', ''OPTIONS''],
      scp @ [cid, ''Api'', ''Default'', ''api'', ''lambda-2''],
      scp @ [cid, ''Api'', ''Default'', ''api'', ''lambda-2'', ''OPTIONS''],
      scp @ [cid, ''Api'', ''Default'', ''api'', ''lambda-1'', ''GET''],
      scp @ [cid, ''Api'', ''Default'', ''api'', ''lambda-2'', ''GET'']]"
  by (simp add: BackendStack_def construct_defs BackendStack.defs)


lemma BackendStack_routeTable:
  "routeTable (BackendStack scp cid props) =
     [(''/'', ''OPTIONS'',
         MockIntegration \<lparr>allowOrigins = ALL_ORIGINS, allowMethods = ALL_METHODS\<rparr>),
      (''/api'', ''OPTIONS'',
         MockIntegration \<lparr>allowOrigins = ALL_ORIGINS, allowMethods = ALL_METHODS\<rparr>),
      (''/api/lambda-1'', ''OPTIONS'',
         MockIntegration \<lparr>allowOrigins = ALL_ORIGINS, allowMethods = ALL_METHODS\<rparr>),
      (''/api/lambda-2'', ''OPTIONS'',
         MockIntegration \<lparr>allowOrigins = ALL_ORIGINS, allowMethods = ALL_METHODS\<rparr>),
      (''/api/lambda-1'', ''GET'', LambdaIntegration
         \<lparr>function_path = scp @ [cid, ''ApiHandler1''],
          function_props = \<lparr>runtime = NODEJS_18_X, handler = ''index.handler'',
            code = Code_fromAsset ''lambda/sample-lambda-1''\<rparr>\<rparr>),
      (''/api/lambda-2'', ''GET'', LambdaIntegration
         \<lparr>function_path = scp @ [cid, ''ApiHandler2''],
          function_props = \<lparr>runtime = NODEJS_18_X, handler = ''index.handler'',
            code = Code_fromAsset ''lambda/sample-lambda-2''\<rparr>\<rparr>)]"
  by (simp add: BackendStack_def construct_defs BackendStack.defs routeTable_def)


text \<open>
  C5, as amended: the route table of the BackendStack maps exactly two entries to
  compute endpoints, \<^verbatim>\<open>GET /api/lambda-1\<close> to the function declared as \<^verbatim>\<open>ApiHandler1\<close>
  (asset \<^verbatim>\<open>lambda/sample-lambda-1\<close>) and \<^verbatim>\<open>GET /api/lambda-2\<close> to \<^verbatim>\<open>ApiHandler2\<close> (asset
  \<^verbatim>\<open>lambda/sample-lambda-2\<close>). Its other entries are the preflight method \<^verbatim>\<open>OPTIONS\<close> on
  each of \<^verbatim>\<open>/\<close>, \<^verbatim>\<open>/api\<close>, \<^verbatim>\<open>/api/lambda-1\<close> and \<^verbatim>\<open>/api/lambda-2\<close>, answered by the front
  door itself. No pair of path and method occurs twice, and every other path and method
  has no entry.
\<close>

theorem BackendStack_route_table:
  "endpoint_routes (BackendStack scp cid props) =
      [(''/api/lambda-1'', ''GET'',
          \<lparr>function_path = scp @ [cid, ''ApiHandler1''],
           function_props = \<lparr>runtime = NODEJS_18_X, handler = ''index.handler'',
             code = Code_fromAsset ''lambda/sample-lambda-1''\<rparr>\<rparr>),
       (''/api/lambda-2'', ''GET'',
          \<lparr>function_path = scp @ [cid, ''ApiHandler2''],
           function_props = \<lparr>runtime = NODEJS_18_X, handler = ''index.handler'',
             code = Code_fromAsset ''lambda/sample-lambda-2''\<rparr>\<rparr>)]
   \<and> map (\<lambda>(p, m, i). (p, m)) (routeTable (BackendStack scp cid props)) =
      [(''/'', ''OPTIONS''), (''/api'', ''OPTIONS''),
       (''/api/lambda-1'', ''OPTIONS''), (''/api/lambda-2'', ''OPTIONS''),
       (''/api/lambda-1'', ''GET''), (''/api/lambda-2'', ''GET'')]
   \<and> distinct (map (\<lambda>(p, m, i). (p, m)) (routeTable (BackendStack scp cid props)))
   \<and> route (BackendStack scp cid props) p m =
       (if (p, m) = (''/api/lambda-1'', ''GET'') then Some (LambdaIntegration
         \<lparr>function_path = scp @ [cid, ''ApiHandler1''],
          function_props = \<lparr>runtime = NODEJS_18_X, handler = ''index.handler'',
            code = Code_fromAsset ''lambda/sample-lambda-1''\<rparr>\<rparr>)
        else if (p, m) = (''/api/lambda-2'', ''GET'') then Some (LambdaIntegration
         \<lparr>function_path = scp @ [cid, ''ApiHandler2''],
          function_props = \<lparr>runtime = NODEJS_18_X, handler = ''index.handler'',
            code = Code_fromAsset ''lambda/sample-lambda-2''\<rparr>\<rparr>)
        else if m = ''OPTIONS''
            \<and> (p = ''/'' \<or> p = ''/api'' \<or> p = ''/api/lambda-1'' \<or> p = ''/api/lambda-2'')
          then Some (MockIntegration \<lparr>allowOrigins = ALL_ORIGINS, allowMethods = ALL_METHODS\<rparr>)
        else None)"
  by (auto simp add: BackendStack_routeTable route_def endpoint_routes_def)

text \<open>
  C5, as stated, fails: the stack's route table has six entries, not two, and the
  combination \<^verbatim>\<open>OPTIONS /api/lambda-1\<close>, which the source declares nowhere by name, is
  routed.
\<close>

theorem BackendStack_preflight_routed:
  "length (routeTable (BackendStack [''App''] ''BackendStack'' (None :: unit option))) = 6
   \<and> route (BackendStack [''App''] ''BackendStack'' (None :: unit option))
        ''/api/lambda-1'' ''OPTIONS''
      = Some (MockIntegration \<lparr>allowOrigins = ALL_ORIGINS, allowMethods = ALL_METHODS\<rparr>)"
  by (simp add: BackendStack_routeTable route_def)

subsection \<open>FrontendStack\<close>

lemma FrontendStack_bucket:
  "bucket (FrontendStack scp cid props) =
     \<lparr>bucket_path = scp @ [cid, ''WebsiteBucket''],
      bucket_props = \<lparr>websiteIndexDocument = Some ''index.html'',
         websiteErrorDocument = Some ''error.html'', publicReadAccess = False,
         blockPublicAccess = BLOCK_ALL, removalPolicy = DESTROY\<rparr>\<rparr>"
  by (simp add: FrontendStack_def construct_defs FrontendStack.defs)

lemma FrontendStack_distribution:
  "distribution (FrontendStack scp cid props) =
     \<lparr>distribution_path = scp @ [cid, ''Distribution''],
      distribution_props =
        \<lparr>defaultBehavior =
           \<lparr>origin = S3BucketOrigin_withOriginAccessControl (bucket (FrontendStack scp cid props)),
            viewerProtocolPolicy = REDIRECT_TO_HTTPS, cachePolicy = None\<rparr>,
         additionalBehaviors =
           [(''/api/*'', \<lparr>origin = RestApiOrigin (props_apiGateway props),
              viewerProtocolPolicy = REDIRECT_TO_HTTPS, cachePolicy = Some CACHING_DISABLED\<rparr>)],
         defaultRootObject = ''index.html'',
         webAclId = attrArn (props_webAcl props)\<rparr>\<rparr>"
  by (simp add: FrontendStack_def construct_defs FrontendStack.defs)

lemma FrontendStack_nodes:
  "nodes (FrontendStack scp cid props) =
     [(scp @ [cid, ''WebsiteBucket''],
         Bucket_node (bucket_props (bucket (FrontendStack scp cid props)))),
      (scp @ [cid, ''Distribution''],
         Distribution_node (distribution_props (distribution (FrontendStack scp cid props)))),
      (scp @ [cid, ''DeployWebsite''], BucketDeployment_node
         \<lparr>sources = [Source_asset ''web''],
          destinationBucket = bucket (FrontendStack scp cid props),
          deploymentDistribution = distribution (FrontendStack scp cid props),
          distributionPaths = [''/*'']\<rparr>),
      (scp @ [cid, ''DistributionDomainName''], CfnOutput_node
         \<lparr>output_value = distributionDomainName (distribution (FrontendStack scp cid props))\<rparr>)]"
  by (simp add: FrontendStack_def construct_defs FrontendStack.defs)

lemma FrontendStack_deployments:
  "deployments (FrontendStack scp cid props) =
     [\<lparr>sources = [Source_asset ''web''],
       destinationBucket = bucket (FrontendStack scp cid props),
       deploymentDistribution = distribution (FrontendStack scp cid props),
       distributionPaths = [''/*'']\<rparr>]"
  by (simp add: deployments_def FrontendStack_nodes)

text \<open>
  The handles the FrontendStack receives when the other two stacks are composed with it:
  the distribution then names the policy declared in the WafStack and forwards
  \<^verbatim>\<open>/api/*\<close> to the front door declared in the BackendStack.
\<close>

lemma FrontendStack_composed:
  "webAclId (distribution_props (distribution (FrontendStack scp cid
       \<lparr>stackProps = sp,
        props_apiGateway = apiGateway (BackendStack scp_b cid_b props_b),
        props_webAcl = webAcl (WafStack scp_w cid_w props_w)\<rparr>)))
     = GetAtt (scp_w @ [cid_w, ''WebACL'']) ''Arn''
   \<and> map (origin \<circ> snd) (additionalBehaviors (distribution_props (distribution
       (FrontendStack scp cid
         \<lparr>stackProps = sp,
          props_apiGateway = apiGateway (BackendStack scp_b cid_b props_b),
          props_webAcl = webAcl (WafStack scp_w cid_w props_w)\<rparr>))))
     = [RestApiOrigin (apiGateway (BackendStack scp_b cid_b props_b))]"
  by (simp add: FrontendStack_distribution attrArn_def WafStack_webAcl_path)

text \<open>
  C1: the distribution of the FrontendStack has two behaviours. The default one (pattern
  \<^verbatim>\<open>*\<close>) has the bucket as its origin, through origin access control, redirects to HTTPS
  and sets no cache policy, so its responses may be cached. The only additional one, for
  \<^verbatim>\<open>/api/*\<close>, has the front door passed to the stack as its origin, redirects to HTTPS
  and has the cache policy that disables caching. The distribution's firewall policy is
  the ARN attribute of the policy handle passed to the stack.
\<close>

theorem FrontendStack_distribution_behaviors:
  "map fst (behaviors (distribution_props (distribution (FrontendStack scp cid props))))
      = [''*'', ''/api/*'']
   \<and> defaultBehavior (distribution_props (distribution (FrontendStack scp cid props)))
      = \<lparr>origin = S3BucketOrigin_withOriginAccessControl (bucket (FrontendStack scp cid props)),
         viewerProtocolPolicy = REDIRECT_TO_HTTPS,
         cachePolicy = None\<rparr>
   \<and> additionalBehaviors (distribution_props (distribution (FrontendStack scp cid props)))
      = [(''/api/*'',
          \<lparr>origin = RestApiOrigin (props_apiGateway props),
           viewerProtocolPolicy = REDIRECT_TO_HTTPS,
           cachePolicy = Some CACHING_DISABLED\<rparr>)]
   \<and> webAclId (distribution_props (distribution (FrontendStack scp cid props)))
      = attrArn (props_webAcl props)"
  by (simp add: FrontendStack_distribution behaviors_def)

text \<open>
  C6: the bucket of the FrontendStack has public read access off and all public access
  blocked, \<^verbatim>\<open>index.html\<close> as its index document and removal policy destroy; it is declared
  in the stack as \<^verbatim>\<open>WebsiteBucket\<close>.
\<close>

theorem FrontendStack_bucket_private:
  "publicReadAccess (bucket_props (bucket (FrontendStack scp cid props))) = False
   \<and> blockPublicAccess (bucket_props (bucket (FrontendStack scp cid props))) = BLOCK_ALL
   \<and> websiteIndexDocument (bucket_props (bucket (FrontendStack scp cid props)))
       = Some ''index.html''
   \<and> removalPolicy (bucket_props (bucket (FrontendStack scp cid props))) = DESTROY
   \<and> (scp @ [cid, ''WebsiteBucket''],
        Bucket_node (bucket_props (bucket (FrontendStack scp cid props))))
       \<in> set (nodes (FrontendStack scp cid props))"
  by (simp add: FrontendStack_bucket FrontendStack_nodes)



text \<open>
  C10: the bucket names \<^verbatim>\<open>error.html\<close> as its error document, while the files published
  by the stack's deployments are those of the directory \<^verbatim>\<open>web\<close>, which holds
  \<^verbatim>\<open>index.html\<close> only: the error document is not among them.
\<close>

theorem FrontendStack_error_document_unpublished:
  "websiteErrorDocument (bucket_props (bucket (FrontendStack scp cid props)))
       = Some ''error.html''
   \<and> concat (map published_files (deployments (FrontendStack scp cid props)))
       = [''index.html'']
   \<and> ''error.html'' \<notin> set (concat (map published_files (deployments (FrontendStack scp cid props))))"
  by (simp add: FrontendStack_bucket FrontendStack_deployments published_files_def
        repository_directories_def)

subsection \<open>The deprecated main stack\<close>

text \<open>
  C9: the deprecated main stack declares nothing: its node list is empty, so it holds no
  policy, no route, no deployment and no output.
\<close>

theorem CdkServerlessWebAppPatternStack_empty:
  "nodes (CdkServerlessWebAppPatternStack scp cid props) = []
   \<and> webACLs (CdkServerlessWebAppPatternStack scp cid props) = []
   \<and> routeTable (CdkServerlessWebAppPatternStack scp cid props) = []
   \<and> deployments (CdkServerlessWebAppPatternStack scp cid props) = []
   \<and> outputs (CdkServerlessWebAppPatternStack scp cid props) = []"
  by (simp add: CdkServerlessWebAppPatternStack_def new_Stack_def webACLs_def routeTable_def
        deployments_def outputs_def)

section \<open>The ISO format is read back\<close>

lemma div_succ:
  fixes a n :: int
  assumes "0 < n"
  shows "(a + 1) div n = a div n + (if (a + 1) mod n = 0 then 1 else 0)"
proof -
  have decomp: "n * (a div n) + a mod n = a" by (rule mult_div_mod_eq)
  have r: "0 \<le> a mod n" "a mod n < n" using assms by simp_all
  show ?thesis
  proof (cases "a mod n = n - 1")
    case True
    with decomp have eq: "a + 1 = (a div n + 1) * n"
      by (simp add: algebra_simps)
    have "(a + 1) div n = a div n + 1"
      using assms by (subst eq) simp
    moreover have "(a + 1) mod n = 0"
      by (subst eq) simp
    ultimately show ?thesis by simp
  next
    case False
    with r have lt: "a mod n + 1 < n" by simp
    from decomp have eq: "a + 1 = n * (a div n) + (a mod n + 1)"
      by simp
    have nn: "0 \<le> a mod n + 1" using r by simp
    have d: "(a + 1) div n = a div n"
      by (rule int_div_pos_eq [OF eq nn lt])
    have m: "(a + 1) mod n = a mod n + 1"
      by (rule int_mod_pos_eq [OF eq nn lt])
    from d m r show ?thesis by simp
  qed
qed

lemma shift_mod:
  fixes y :: int
  shows "(y - 1968) mod 4 = y mod 4" "(y - 1900) mod 100 = y mod 100" "(y - 1600) mod 400 = y mod 400"
proof -
  have "(y + (- 492) * 4) mod 4 = y mod 4" by (rule mod_mult_self1)
  then show "(y - 1968) mod 4 = y mod 4" by simp
  have "(y + (- 19) * 100) mod 100 = y mod 100" by (rule mod_mult_self1)
  then show "(y - 1900) mod 100 = y mod 100" by simp
  have "(y + (- 4) * 400) mod 400 = y mod 400" by (rule mod_mult_self1)
  then show "(y - 1600) mod 400 = y mod 400" by simp
qed

lemma mod_4_100_400:
  fixes y :: int
  shows "y mod 100 = 0 \<Longrightarrow> y mod 4 = 0" "y mod 400 = 0 \<Longrightarrow> y mod 100 = 0"
proof -
  assume "y mod 100 = 0"
  then have "100 dvd y" by (simp add: mod_eq_0_iff_dvd)
  moreover have "(4::int) dvd 100" by simp
  ultimately have "4 dvd y" by (rule dvd_trans [rotated])
  then show "y mod 4 = 0" by (simp add: mod_eq_0_iff_dvd)
next
  assume "y mod 400 = 0"
  then have "400 dvd y" by (simp add: mod_eq_0_iff_dvd)
  moreover have "(100::int) dvd 400" by simp
  ultimately have "100 dvd y" by (rule dvd_trans [rotated])
  then show "y mod 100 = 0" by (simp add: mod_eq_0_iff_dvd)
qed

lemma DayFromYear_next: "DayFromYear (y + 1) = DayFromYear y + DaysInYear y"
proof -
  have a: "(y - 1969 + 1) div 4 = (y - 1969) div 4 + (if (y - 1969 + 1) mod 4 = 0 then 1 else 0)"
    by (rule div_succ) simp
  have b: "(y - 1901 + 1) div 100 = (y - 1901) div 100 + (if (y - 1901 + 1) mod 100 = 0 then 1 else 0)"
    by (rule div_succ) simp
  have c: "(y - 1601 + 1) div 400 = (y - 1601) div 400 + (if (y - 1601 + 1) mod 400 = 0 then 1 else 0)"
    by (rule div_succ) simp
  have e: "y + 1 - 1969 = y - 1969 + 1" "y + 1 - 1901 = y - 1901 + 1" "y + 1 - 1601 = y - 1601 + 1"
     "y - 1969 + 1 = y - 1968" "y - 1901 + 1 = y - 1900" "y - 1601 + 1 = y - 1600"
    by simp_all
  show ?thesis
    unfolding DayFromYear_def DaysInYear_def
    using mod_4_100_400 [of y]
    by (simp only: e(1-3) a b c) (simp only: e(4-6) shift_mod, auto)
qed

lemma DaysInYear_bounds: "365 \<le> DaysInYear y" "DaysInYear y \<le> 366"
  by (simp_all add: DaysInYear_def)

lemma year_down_le: "DayFromYear (year_down d y) \<le> d"
  by (induction d y rule: year_down.induct) (simp add: year_down.simps)

lemma year_up_le: "DayFromYear y \<le> d \<Longrightarrow> DayFromYear (year_up d y) \<le> d"
  by (induction d y rule: year_up.induct) (simp add: year_up.simps)

lemma year_up_gt: "d < DayFromYear (year_up d y + 1)"
  by (induction d y rule: year_up.induct) (simp add: year_up.simps)

lemma YearFromDay_bounds:
  "DayFromYear (YearFromDay d) \<le> d" "d < DayFromYear (YearFromDay d + 1)"
  by (simp_all add: YearFromDay_def year_down_le year_up_le year_up_gt)

lemma month_date:
  assumes "0 \<le> d" "d < 365 + L" "L = 0 \<or> L = 1"
  shows "0 \<le> MonthFromDay d L" "MonthFromDay d L \<le> 11"
    "1 \<le> DateFromDay d L" "DateFromDay d L \<le> DaysInMonth (MonthFromDay d L) L"
    "DaysBeforeMonth (MonthFromDay d L) L + DateFromDay d L - 1 = d"
  using assms
  by (auto simp: MonthFromDay_def DateFromDay_def DaysBeforeMonth_def DaysInMonth_def)

lemma time_decomposition:
  "Day t * msPerDay + HourFromTime t * 3600000 + MinFromTime t * 60000
     + SecFromTime t * 1000 + msFromTime t = t"
proof -
  have a: "t div 60000 = t div 1000 div 60"
    using zdiv_zmult2_eq [of 60 t 1000] by simp
  have b: "t div 3600000 = t div 60000 div 60"
    using zdiv_zmult2_eq [of 60 t 60000] by simp
  have c: "t div 86400000 = t div 3600000 div 24"
    using zdiv_zmult2_eq [of 24 t 3600000] by simp
  have 1: "t = 1000 * (t div 1000) + t mod 1000" by simp
  have 2: "t div 1000 = 60 * (t div 60000) + (t div 1000) mod 60"
    unfolding a by simp
  have 3: "t div 60000 = 60 * (t div 3600000) + (t div 60000) mod 60"
    unfolding b by simp
  have 4: "t div 3600000 = 24 * (t div 86400000) + (t div 3600000) mod 24"
    unfolding c by simp
  show ?thesis
    unfolding Day_def msPerDay_def HourFromTime_def MinFromTime_def SecFromTime_def msFromTime_def
    using 1 2 3 4 by linarith
qed

lemma DayFromYear_mono: "y \<le> y' \<Longrightarrow> DayFromYear y \<le> DayFromYear y'"
proof (induction y' rule: int_ge_induct)
  case base
  show ?case by simp
next
  case (step i)
  have "365 \<le> DaysInYear i" by (rule DaysInYear_bounds)
  with step DayFromYear_next [of i] show ?case by simp
qed

lemma Day_range:
  assumes "time_value t"
  shows "- 100000000 \<le> Day t" "Day t \<le> 100000000"
proof -
  from assms have "- 8640000000000000 \<le> t" "t \<le> 8640000000000000"
    by (simp_all add: time_value_def)
  then have "(- 8640000000000000) div 86400000 \<le> t div 86400000"
    "t div 86400000 \<le> 8640000000000000 div 86400000"
    by (simp_all add: zdiv_mono1)
  then show "- 100000000 \<le> Day t" "Day t \<le> 100000000"
    by (simp_all add: Day_def msPerDay_def)
qed

lemma Year_range:
  assumes "time_value t"
  shows "- 1000000 < YearFromTime t" "YearFromTime t < 1000000"
proof -
  let ?y = "YearFromTime t"
  have lo: "DayFromYear ?y \<le> Day t" and hi: "Day t < DayFromYear (?y + 1)"
    by (simp_all add: YearFromTime_def YearFromDay_bounds)
  show "?y < 1000000"
  proof (rule ccontr)
    assume "\<not> ?y < 1000000"
    then have "DayFromYear 1000000 \<le> DayFromYear ?y" by (intro DayFromYear_mono) simp
    moreover have "100000000 < DayFromYear 1000000" by (simp add: DayFromYear_def)
    ultimately show False using lo Day_range(2) [OF assms] by simp
  qed
  show "- 1000000 < ?y"
  proof (rule ccontr)
    assume "\<not> - 1000000 < ?y"
    then have "DayFromYear (?y + 1) \<le> DayFromYear (- 999999)" by (intro DayFromYear_mono) simp
    moreover have "DayFromYear (- 999999) < - 100000000" by (simp add: DayFromYear_def)
    ultimately show False using hi Day_range(1) [OF assms] by simp
  qed
qed

lemma DayWithinYear_range:
  "0 \<le> DayWithinYear t" "DayWithinYear t < 365 + InLeapYear (YearFromTime t)"
proof -
  let ?y = "YearFromTime t"
  have lo: "DayFromYear ?y \<le> Day t" and hi: "Day t < DayFromYear (?y + 1)"
    by (simp_all add: YearFromTime_def YearFromDay_bounds)
  from lo show "0 \<le> DayWithinYear t" by (simp add: DayWithinYear_def)
  have "DaysInYear ?y = 365 + InLeapYear ?y"
    by (simp add: InLeapYear_def DaysInYear_def)
  with hi DayFromYear_next [of ?y] show "DayWithinYear t < 365 + InLeapYear ?y"
    by (simp add: DayWithinYear_def)
qed

lemma digit_value_digit: "0 \<le> a \<Longrightarrow> a < 10 \<Longrightarrow> digit_value (digit a) = Some a"
  by (simp add: digit_value_def digit_def)

lemma digit_not_sign: "0 \<le> a \<Longrightarrow> a < 10 \<Longrightarrow> digit a \<noteq> CHR ''+'' \<and> digit a \<noteq> CHR ''-''"
proof -
  assume a: "0 \<le> a" "a < 10"
  then have "(of_char (digit a) :: int) = 48 + a" by (simp add: digit_def)
  moreover have "(of_char CHR ''+'' :: int) = 43" "(of_char CHR ''-'' :: int) = 45" by simp_all
  ultimately show ?thesis using a by auto
qed

lemma number_from_snoc:
  "number_from acc (xs @ [c]) =
     (case number_from acc xs of
        None \<Rightarrow> None
      | Some a \<Rightarrow> (case digit_value c of None \<Rightarrow> None | Some v \<Rightarrow> Some (10 * a + v)))"
  by (induction xs arbitrary: acc) (simp_all split: option.splits)

lemma number_from_pad:
  "0 \<le> n \<Longrightarrow> n < 10 ^ k \<Longrightarrow> number_from 0 (pad k n) = Some n"
proof (induction k arbitrary: n)
  case 0
  then show ?case by simp
next
  case (Suc k)
  have "0 \<le> n div 10" using Suc.prems by simp
  moreover have "n div 10 < 10 ^ k"
  proof -
    from Suc.prems have "n < 10 ^ k * 10" by (simp add: mult.commute)
    then show ?thesis by (simp add: div_less_iff_less_mult)
  qed
  ultimately have "number_from 0 (pad k (n div 10)) = Some (n div 10)"
    by (rule Suc.IH)
  then show ?case
    by (simp add: number_from_snoc digit_value_digit)
qed

lemma pad_2: "pad 2 n = [digit (n div 10 mod 10), digit (n mod 10)]"
  by (simp add: numeral_2_eq_2)

lemma pad_3: "pad 3 n = [digit (n div 10 div 10 mod 10), digit (n div 10 mod 10), digit (n mod 10)]"
  by (simp add: numeral_3_eq_3)

lemma pad_4:
  "pad 4 n = [digit (n div 10 div 10 div 10 mod 10), digit (n div 10 div 10 mod 10),
              digit (n div 10 mod 10), digit (n mod 10)]"
  by (simp add: eval_nat_numeral)

lemma pad_6:
  "pad 6 n = [digit (n div 10 div 10 div 10 div 10 div 10 mod 10),
              digit (n div 10 div 10 div 10 div 10 mod 10),
              digit (n div 10 div 10 div 10 mod 10), digit (n div 10 div 10 mod 10),
              digit (n div 10 mod 10), digit (n mod 10)]"
  by (simp add: eval_nat_numeral)

lemmas number_from_pads =
  number_from_pad [of _ 2, unfolded pad_2] number_from_pad [of _ 3, unfolded pad_3]
  number_from_pad [of _ 4, unfolded pad_4] number_from_pad [of _ 6, unfolded pad_6]

lemma pad_two: "\<exists>a b. pad 2 n = [a, b]"
  by (simp add: pad_2)

lemma pad_three: "\<exists>a b c. pad 3 n = [a, b, c]"
  by (simp add: pad_3)

lemma parse_rest_pads:
  assumes "0 \<le> m" "m < 100" "0 \<le> d" "d < 100" "0 \<le> h" "h < 100"
    "0 \<le> i" "i < 100" "0 \<le> s" "s < 100" "0 \<le> f" "f < 1000"
  shows "parse_rest (''-'' @ pad 2 m @ ''-'' @ pad 2 d @ ''T'' @ pad 2 h @ '':'' @ pad 2 i
           @ '':'' @ pad 2 s @ ''.'' @ pad 3 f @ ''Z'') = Some (m, d, h, i, s, f)"
proof -
  obtain m1 m2 where m: "pad 2 m = [m1, m2]" using pad_two by blast
  obtain d1 d2 where d: "pad 2 d = [d1, d2]" using pad_two by blast
  obtain h1 h2 where h: "pad 2 h = [h1, h2]" using pad_two by blast
  obtain i1 i2 where i: "pad 2 i = [i1, i2]" using pad_two by blast
  obtain s1 s2 where s: "pad 2 s = [s1, s2]" using pad_two by blast
  obtain f1 f2 f3 where f: "pad 3 f = [f1, f2, f3]" using pad_three by blast
  have n: "number_from 0 [m1, m2] = Some m" "number_from 0 [d1, d2] = Some d"
    "number_from 0 [h1, h2] = Some h" "number_from 0 [i1, i2] = Some i"
    "number_from 0 [s1, s2] = Some s" "number_from 0 [f1, f2, f3] = Some f"
    using assms number_from_pad [of m 2] number_from_pad [of d 2] number_from_pad [of h 2]
      number_from_pad [of i 2] number_from_pad [of s 2] number_from_pad [of f 3]
    unfolding m d h i s f by simp_all
  show ?thesis
    unfolding m d h i s f by (simp add: n del: number_from.simps)
qed

lemma parse_year_text:
  assumes "- 1000000 < y" "y < 1000000"
  shows "parse_year (year_text y @ r1 # r2 # r3 # rs) = Some (y, r1 # r2 # r3 # rs)"
proof (cases "0 \<le> y \<and> y \<le> 9999")
  case True
  obtain a b c d where p: "pad 4 y = [a, b, c, d]" by (simp add: pad_4)
  have a: "a = digit (y div 10 div 10 div 10 mod 10)" using p by (simp add: pad_4)
  have "number_from 0 [a, b, c, d] = Some y"
    using True number_from_pad [of y 4] unfolding p by simp
  moreover have "a \<noteq> CHR ''+'' \<and> a \<noteq> CHR ''-''"
    unfolding a by (rule digit_not_sign) simp_all
  ultimately show ?thesis
    using True by (simp add: year_text_def p del: number_from.simps)
next
  case False
  show ?thesis
  proof (cases "y < 0")
    case True
    obtain a b c d e f where p: "pad 6 (- y) = [a, b, c, d, e, f]" by (simp add: pad_6)
    have "number_from 0 [a, b, c, d, e, f] = Some (- y)"
      using True assms number_from_pad [of "- y" 6] unfolding p by simp
    then show ?thesis
      using True by (simp add: year_text_def p del: number_from.simps)
  next
    case pos: False
    obtain a b c d e f where p: "pad 6 y = [a, b, c, d, e, f]" by (simp add: pad_6)
    have "number_from 0 [a, b, c, d, e, f] = Some y"
      using pos assms number_from_pad [of y 6] unfolding p by simp
    then show ?thesis
      using pos False by (simp add: year_text_def p del: number_from.simps)
  qed
qed

lemma parse_toISOString:
  assumes "time_value t"
  shows "parse_date_time (toISOString t) = Some t"
proof -
  define y where "y = YearFromTime t"
  define L where "L = InLeapYear y"
  define d where "d = DayWithinYear t"
  define m where "m = MonthFromDay d L"
  define dt where "dt = DateFromDay d L"
  define tail where "tail = ''-'' @ pad 2 dt @ ''T'' @ pad 2 (HourFromTime t) @ '':''
     @ pad 2 (MinFromTime t) @ '':'' @ pad 2 (SecFromTime t) @ ''.''
     @ pad 3 (msFromTime t) @ ''Z''"
  have yr: "- 1000000 < y" "y < 1000000"
    using Year_range [OF assms] by (simp_all add: y_def)
  have L: "L = 0 \<or> L = 1" by (simp add: L_def InLeapYear_def)
  have d: "0 \<le> d" "d < 365 + L"
    using DayWithinYear_range [of t] by (simp_all add: d_def L_def y_def)
  note md = month_date [OF d L, folded m_def dt_def]
  have dt_le: "dt \<le> 31"
    using md(4) L by (auto simp: DaysInMonth_def split: if_splits)
  have tod: "0 \<le> HourFromTime t" "HourFromTime t < 24" "0 \<le> MinFromTime t" "MinFromTime t < 60"
    "0 \<le> SecFromTime t" "SecFromTime t < 60" "0 \<le> msFromTime t" "msFromTime t < 1000"
    by (simp_all add: HourFromTime_def MinFromTime_def SecFromTime_def msFromTime_def)
  obtain m1 m2 where mm: "pad 2 (m + 1) = [m1, m2]" using pad_two by blast
  have str: "toISOString t = year_text y @ CHR ''-'' # m1 # m2 # tail"
    by (simp add: toISOString_def Let_def y_def [symmetric] L_def [symmetric] d_def [symmetric]
        m_def [symmetric] dt_def [symmetric] mm tail_def)
  have py: "parse_year (toISOString t) = Some (y, CHR ''-'' # m1 # m2 # tail)"
    unfolding str by (rule parse_year_text [OF yr])
  have "parse_rest (''-'' @ pad 2 (m + 1) @ ''-'' @ pad 2 dt @ ''T''
         @ pad 2 (HourFromTime t) @ '':''
         @ pad 2 (MinFromTime t) @ '':'' @ pad 2 (SecFromTime t) @ ''.''
         @ pad 3 (msFromTime t) @ ''Z'')
       = Some (m + 1, dt, HourFromTime t, MinFromTime t, SecFromTime t, msFromTime t)"
    using md dt_le tod by (intro parse_rest_pads) simp_all
  then have pr: "parse_rest (CHR ''-'' # m1 # m2 # tail)
       = Some (m + 1, dt, HourFromTime t, MinFromTime t, SecFromTime t, msFromTime t)"
    by (simp only: mm tail_def append_Cons append_Nil)
  have day: "DayFromYear y + DaysBeforeMonth m L + dt - 1 = Day t"
    using md(5) by (simp add: d_def DayWithinYear_def y_def)
  have t: "(DayFromYear y + DaysBeforeMonth m L + dt - 1) * msPerDay + HourFromTime t * 3600000
          + MinFromTime t * 60000 + SecFromTime t * 1000 + msFromTime t = t"
    unfolding day by (rule time_decomposition)
  have ok: "1 \<le> m + 1" "m + 1 \<le> 12" "1 \<le> dt" "dt \<le> DaysInMonth (m + 1 - 1) L"
    "HourFromTime t \<le> 23" "MinFromTime t \<le> 59" "SecFromTime t \<le> 59"
    using md tod by simp_all
  show ?thesis
    using ok t assms by (simp add: parse_date_time_def py pr L_def [symmetric] Let_def)
qed

section \<open>The handler's response\<close>

lemmas json_defs = JSON_stringify_def wrap_def QuoteJSONString_def escape_def
  text_or_undefined_def number_text_def hex_def

text \<open>
  On an invocation event, the expression \<^verbatim>\<open>event.requestContext?.requestId || 'unknown'\<close>
  is the request identifier of the invocation when there is one, and \<^verbatim>\<open>'unknown'\<close>
  otherwise.
\<close>

lemma requestId_or_unknown:
  "invocation_event event \<Longrightarrow>
   logical_or (get_property_optional (own_property event ''requestContext'') ''requestId'')
       (JStr ''unknown'')
     = JStr (case request_identifier event of Some rid \<Rightarrow> rid | None \<Rightarrow> ''unknown'')"
  by (cases event; cases "own_property event ''requestContext''")
     (auto simp: logical_or_def get_property_optional_def request_identifier_def nullish_def
           invocation_event_def
           split: option.splits jsval.splits)

lemma invocation_event_not_nullish: "invocation_event event \<Longrightarrow> \<not> nullish event"
  by (cases event) (simp_all add: invocation_event_def nullish_def)

lemma handler_nullish_event:
  "nullish event \<Longrightarrow> snd (handler now event) = Inl TypeError"
  by (simp add: handler_def get_property_def)

text \<open>
  C3: for every invocation event, at every reading of the clock, the handler is
  fulfilled with status 200, the four fixed headers and a body that is the JSON text of
  an object with the fields \<^verbatim>\<open>message\<close>, the fixed greeting, \<^verbatim>\<open>timestamp\<close>, a string that
  is read back as an ISO-8601 date-time, namely as the clock's reading, and
  \<^verbatim>\<open>requestId\<close>, the request identifier of the invocation or, when none is available in
  its context, the string \<^verbatim>\<open>unknown\<close>.
\<close>

theorem handler_response:
  assumes "invocation_event event" and "time_value now"
  shows "\<exists>console text timestamp. handler now event =
     (console,
      Inr \<lparr>statusCode = 200,
           headers =
             [(''Content-Type'', ''application/json''),
              (''Access-Control-Allow-Origin'', ''*''),
              (''Access-Control-Allow-Headers'', ''Content-Type''),
              (''Access-Control-Allow-Methods'', ''OPTIONS,POST,GET'')],
           body = Some text\<rparr>)
     \<and> JSON_stringify (JObj
           [(''message'', JStr ''Hello from sample-lambda-1!''),
            (''timestamp'', JStr timestamp),
            (''requestId'', JStr (case request_identifier event of
                                     Some rid \<Rightarrow> rid | None \<Rightarrow> ''unknown''))]) 0 = Some text
     \<and> parse_date_time timestamp = Some now"
proof -
  let ?obj = "\<lambda>timestamp. JObj
           [(''message'', JStr ''Hello from sample-lambda-1!''),
            (''timestamp'', JStr timestamp),
            (''requestId'', JStr (case request_identifier event of
                                     Some rid \<Rightarrow> rid | None \<Rightarrow> ''unknown''))]"
  have "\<not> nullish event"
    using assms(1) by (rule invocation_event_not_nullish)
  then have run: "handler now event =
     ([''Event: '' @ text_or_undefined (JSON_stringify event 2)],
      Inr \<lparr>statusCode = 200,
           headers =
             [(''Content-Type'', ''application/json''),
              (''Access-Control-Allow-Origin'', ''*''),
              (''Access-Control-Allow-Headers'', ''Content-Type''),
              (''Access-Control-Allow-Methods'', ''OPTIONS,POST,GET'')],
           body = JSON_stringify (?obj (toISOString now)) 0\<rparr>)"
    using assms(1) by (simp add: handler_def get_property_def requestId_or_unknown)
  obtain jt where jt: "JSON_stringify (?obj (toISOString now)) 0 = Some jt"
    by (simp add: JSON_stringify_def)
  have "parse_date_time (toISOString now) = Some now"
    using assms(2) by (rule parse_toISOString)
  with run jt show ?thesis
    by (intro exI [of _ "[''Event: '' @ text_or_undefined (JSON_stringify event 2)]"]
        exI [of _ jt] exI [of _ "toISOString now"]) simp
qed

lemma sample_timestamp: "toISOString sample_clock = ''2024-05-06T07:08:09.123Z''"
  by code_simp

theorem handler_response_witness:
  "invocation_event sample_event \<and> invocation_event bare_event \<and> time_value sample_clock
   \<and> snd (handler sample_clock sample_event) =
     Inr \<lparr>statusCode = 200,
           headers =
             [(''Content-Type'', ''application/json''),
              (''Access-Control-Allow-Origin'', ''*''),
              (''Access-Control-Allow-Headers'', ''Content-Type''),
              (''Access-Control-Allow-Methods'', ''OPTIONS,POST,GET'')],
           body = Some (''{\"message\":\"Hello from sample-lambda-1!\",''
                     @ ''\"timestamp\":\"2024-05-06T07:08:09.123Z\",''
                     @ ''\"requestId\":\"c6af9ac6-7b61\"}'')\<rparr>
   \<and> snd (handler sample_clock bare_event) =
     Inr \<lparr>statusCode = 200,
           headers =
             [(''Content-Type'', ''application/json''),
              (''Access-Control-Allow-Origin'', ''*''),
              (''Access-Control-Allow-Headers'', ''Content-Type''),
              (''Access-Control-Allow-Methods'', ''OPTIONS,POST,GET'')],
           body = Some (''{\"message\":\"Hello from sample-lambda-1!\",''
                     @ ''\"timestamp\":\"2024-05-06T07:08:09.123Z\",''
                     @ ''\"requestId\":\"unknown\"}'')\<rparr>
   \<and> parse_date_time ''2024-05-06T07:08:09.123Z'' = Some sample_clock"
proof -
  have ev: "invocation_event sample_event"
    by (simp add: invocation_event_def sample_event_def)
  have bare: "invocation_event bare_event"
    by (simp add: invocation_event_def bare_event_def)
  have cl: "time_value sample_clock"
    by (simp add: time_value_def sample_clock_def)
  have id: "request_identifier sample_event = Some ''c6af9ac6-7b61''"
    by (simp add: request_identifier_def sample_event_def)
  have no_id: "request_identifier bare_event = None"
    by (simp add: request_identifier_def bare_event_def)
  have r1: "snd (handler sample_clock sample_event) =
     Inr \<lparr>statusCode = 200,
           headers =
             [(''Content-Type'', ''application/json''),
              (''Access-Control-Allow-Origin'', ''*''),
              (''Access-Control-Allow-Headers'', ''Content-Type''),
              (''Access-Control-Allow-Methods'', ''OPTIONS,POST,GET'')],
           body = Some (''{\"message\":\"Hello from sample-lambda-1!\",''
                     @ ''\"timestamp\":\"2024-05-06T07:08:09.123Z\",''
                     @ ''\"requestId\":\"c6af9ac6-7b61\"}'')\<rparr>"
    using ev
    by (simp add: handler_def get_property_def invocation_event_not_nullish
        requestId_or_unknown id sample_timestamp json_defs)
  have r2: "snd (handler sample_clock bare_event) =
     Inr \<lparr>statusCode = 200,
           headers =
             [(''Content-Type'', ''application/json''),
              (''Access-Control-Allow-Origin'', ''*''),
              (''Access-Control-Allow-Headers'', ''Content-Type''),
              (''Access-Control-Allow-Methods'', ''OPTIONS,POST,GET'')],
           body = Some (''{\"message\":\"Hello from sample-lambda-1!\",''
                     @ ''\"timestamp\":\"2024-05-06T07:08:09.123Z\",''
                     @ ''\"requestId\":\"unknown\"}'')\<rparr>"
    using bare
    by (simp add: handler_def get_property_def invocation_event_not_nullish
        requestId_or_unknown no_id sample_timestamp json_defs)
  have rd: "parse_date_time ''2024-05-06T07:08:09.123Z'' = Some sample_clock"
    using parse_toISOString [OF cl] by (simp only: sample_timestamp)
  from handler_response [OF ev cl] handler_response [OF bare cl]
  show ?thesis
    using r1 r2 rd ev bare cl by simp
qed

section \<open>The demo page's display\<close>

text \<open>
  C8, as amended: \<open>testApi\<close> calls \<^verbatim>\<open>fetch\<close> exactly once, for the endpoint it is given,
  whatever the outcome; and when \<^verbatim>\<open>fetch\<close> or the reading of the response as JSON throws,
  the markup it assigns to the page's result element is the failure markup: the heading
  with the name and \<^verbatim>\<open>Call Failed\<close>, and the paragraph \<^verbatim>\<open>Error:\<close> followed by the message
  of the error thrown, as it is, not escaped.
\<close>

theorem testApi_failure:
  "fetched (testApi fetch endpoint lambdaName page) = fetched page @ [endpoint]
   \<and> (thrown_in_try (fetch endpoint) = Some error \<longrightarrow>
        innerHTML (testApi fetch endpoint lambdaName page) =
          [CHR 0x0A] @ ''                    <h3>'' @ [CHR 0xE2, CHR 0x9D, CHR 0x8C] @ '' ''
            @ lambdaName @ '' Call Failed</h3>''
          @ [CHR 0x0A] @ ''                    <p>Error: '' @ message error @ ''</p>''
          @ [CHR 0x0A] @ ''                '')"
  by (auto simp: testApi_def thrown_in_try_def failure_markup_def Let_def split: sum.splits)

theorem testApi_failure_witness:
  "thrown_in_try (fetch_network_down ''/api/lambda-1'') = Some (Thrown ''Failed to fetch'')
   \<and> fetched (testApi fetch_network_down ''/api/lambda-1'' ''Lambda 1'' fresh_page)
       = [''/api/lambda-1'']
   \<and> innerHTML (testApi fetch_network_down ''/api/lambda-1'' ''Lambda 1'' fresh_page) =
          [CHR 0x0A] @ ''                    <h3>'' @ [CHR 0xE2, CHR 0x9D, CHR 0x8C]
            @ '' Lambda 1 Call Failed</h3>''
          @ [CHR 0x0A] @ ''                    <p>Error: Failed to fetch</p>''
          @ [CHR 0x0A] @ ''                ''"
  using testApi_failure [of fetch_network_down "''/api/lambda-1''" "''Lambda 1''" fresh_page
      "Thrown ''Failed to fetch''"]
  by (simp add: thrown_in_try_def fetch_network_down_def fresh_page_def)

text \<open>
  C8, as stated, fails when the front door answers for a failed endpoint with status 502
  and a JSON body: nothing is thrown, and the markup assigned shows that body under the
  heading of a successful response.
\<close>

theorem testApi_failed_invocation:
  "status failed_invocation_response = 502
   \<and> fetch_failed_invocation ''/api/lambda-1'' = Inr failed_invocation_response
   \<and> innerHTML (testLambda1 fetch_failed_invocation fresh_page) =
        [CHR 0x0A] @ ''                    <h3>'' @ [CHR 0xE2, CHR 0x9C, CHR 0x85]
          @ '' Lambda 1 Response Success!</h3>''
        @ [CHR 0x0A] @ ''                    <pre>{''
        @ [CHR 0x0A] @ ''  \"message\": \"Internal server error\"''
        @ [CHR 0x0A] @ ''}</pre>''
        @ [CHR 0x0A] @ ''                ''"
  by (simp add: testLambda1_def testApi_def fetch_failed_invocation_def
        failed_invocation_response_def fresh_page_def success_markup_def json_defs
        numeral_2_eq_2)

end
